theory Spec2Isabelle
  imports Main "HOL-Library.Word"
begin

unbundle bit_operations_syntax

section \<open>Logical tiles, expressions and join clauses\<close>

text \<open>
  Row identifiers (\<^verbatim>\<open>oid_t\<close>) and row indices (\<^verbatim>\<open>size_t\<close>) are natural numbers. The
  only arithmetic the executor does on them is \<^verbatim>\<open>start_row + 1\<close>, \<^verbatim>\<open>end_row++\<close> and
  the schema shift; \<^verbatim>\<open>start_row + 1\<close> is used only after \<^verbatim>\<open>start_row < tuple_count\<close>
  has been established, so it cannot wrap there.
\<close>

type_synonym oid_t = nat

text \<open>
  \<^verbatim>\<open>LogicalTile::ColumnInfo\<close>: the position list that supplies the column's row
  identifiers, and the base tile and base column the column resolves to.
\<close>

record 'b ColumnInfo =
  position_list_idx :: nat
  base_tile :: 'b
  origin_column_id :: nat

text \<open>
  A logical tile: its schema, its position lists and the row count that
  \<^verbatim>\<open>GetTupleCount\<close> reports.

  Modelled from the spec: \<^verbatim>\<open>LogicalTile\<close> is declared outside the sources; the record
  holds what the executor reads through \<^verbatim>\<open>GetSchema\<close>, \<^verbatim>\<open>GetPositionLists\<close> and
  \<^verbatim>\<open>GetTupleCount\<close>.
\<close>

record 'b LogicalTile =
  GetSchema :: "'b ColumnInfo list"
  GetPositionLists :: "oid_t list list"
  GetTupleCount :: nat

text \<open>\<^verbatim>\<open>ContainerTuple<LogicalTile>(tile, row)\<close>: one row of a tile, seen as a tuple.\<close>

type_synonym 'b ContainerTuple = "'b LogicalTile \<times> nat"

text \<open>
  An expression tree is taken as the function its \<^verbatim>\<open>Evaluate(tuple1, tuple2, context)\<close>
  computes; the executor context is not read by the executor itself.
\<close>

type_synonym ('b, 'v) AbstractExpression = "'b ContainerTuple \<Rightarrow> 'b ContainerTuple \<Rightarrow> 'v"

text \<open>
  Modelled from the spec: \<^verbatim>\<open>Value::Compare\<close> is declared outside the sources; it is
  the three-way comparison (negative: less, zero: equal, positive: greater) of
  comparable values.
\<close>

definition Compare :: "'v::linorder \<Rightarrow> 'v \<Rightarrow> int" where
  "Compare a b = (if a < b then - 1 else if b < a then 1 else 0)"

record ('b, 'v) JoinClause =
  clause_left :: "('b, 'v) AbstractExpression"
  clause_right :: "('b, 'v) AbstractExpression"

text \<open>
  The executor object (its members without the trailing underscore of the source): the
  join clauses, the optional predicate (its evaluated result
  read as a truth value, so that \<^verbatim>\<open>IsFalse()\<close> is negation), the tiles its two
  children have still to produce (\<^verbatim>\<open>children_[0]\<close> is the left child,
  \<^verbatim>\<open>children_[1]\<close> the right one) and the output slot that \<^verbatim>\<open>SetOutput\<close> fills.
\<close>

record ('b, 'v) MergeJoinExecutor =
  join_clause :: "('b, 'v) JoinClause list"
  predicate :: "('b, bool) AbstractExpression option"
  children_0 :: "'b LogicalTile list"
  children_1 :: "'b LogicalTile list"
  executor_output :: "'b LogicalTile option"

section \<open>MergeJoinExecutor::Advance\<close>

text \<open>
  The \<^verbatim>\<open>for\<close> loop over the join clauses inside \<^verbatim>\<open>Advance\<close>. It changes no
  variable; the result says whether it was left through \<^verbatim>\<open>break\<close>.
\<close>

fun Advance_clauses ::
  "('b, 'v::linorder) JoinClause list \<Rightarrow> bool \<Rightarrow> 'b ContainerTuple \<Rightarrow> 'b ContainerTuple \<Rightarrow> bool" where
  "Advance_clauses [] is_left this_tuple next_tuple = False"
| "Advance_clauses (clause # rest) is_left this_tuple next_tuple =
     (let expr = (if is_left then clause_left clause else clause_right clause);
          this_value = expr this_tuple this_tuple;
          next_value = expr next_tuple next_tuple
      in if 0 \<noteq> Compare this_value next_value then True
         else Advance_clauses rest is_left this_tuple next_tuple)"

text \<open>
  The \<^verbatim>\<open>while (end_row < tuple_count)\<close> loop. The \<^verbatim>\<open>break\<close> of the clause loop
  leaves the clause loop only, so every iteration goes on to \<^verbatim>\<open>end_row++\<close> and
  \<^verbatim>\<open>this_row = end_row\<close>.
\<close>

function Advance_while ::
  "('b, 'v::linorder) JoinClause list \<Rightarrow> 'b LogicalTile \<Rightarrow> bool \<Rightarrow> nat \<Rightarrow> nat \<Rightarrow> nat" where
  "Advance_while clauses tile is_left this_row end_row =
     (if end_row < GetTupleCount tile then
        (let left_by_break = Advance_clauses clauses is_left (tile, this_row) (tile, end_row)
         in Advance_while clauses tile is_left (end_row + 1) (end_row + 1))
      else end_row)"
  by pat_completeness auto
termination
  by (relation "measure (\<lambda>(clauses, tile, is_left, this_row, end_row). GetTupleCount tile - end_row)") auto

declare Advance_while.simps [simp del]

definition Advance ::
  "('b, 'v::linorder, 'x) MergeJoinExecutor_scheme \<Rightarrow> 'b LogicalTile \<Rightarrow> nat \<Rightarrow> bool \<Rightarrow> nat" where
  "Advance ex tile start_row is_left =
     (let end_row = start_row + 1;
          this_row = start_row;
          tuple_count = GetTupleCount tile
      in if start_row \<ge> tuple_count then start_row
         else Advance_while (join_clause ex) tile is_left this_row end_row)"

section \<open>MergeJoinExecutor::DInit\<close>

text \<open>
  The plan node hands over its join clauses. \<^verbatim>\<open>AbstractJoinExecutor::Init\<close> is outside
  the sources and is taken as a parameter: it returns a status and the executor as the
  base class has initialised it.
\<close>

record ('b, 'v) MergeJoinNode =
  GetJoinClauses :: "('b, 'v) JoinClause list"

definition DInit ::
  "(('b, 'v) MergeJoinExecutor \<Rightarrow> bool \<times> ('b, 'v) MergeJoinExecutor) \<Rightarrow>
   ('b, 'v) MergeJoinNode \<Rightarrow> ('b, 'v) MergeJoinExecutor \<Rightarrow> bool \<times> ('b, 'v) MergeJoinExecutor" where
  "DInit AbstractJoinExecutor_Init node ex =
     (let (status, ex1) = AbstractJoinExecutor_Init ex
      in if status = False then (status, ex1)
         else (True, ex1\<lparr>join_clause := GetJoinClauses node\<rparr>))"

section \<open>MergeJoinExecutor::DExecute\<close>

datatype error = OutOfFuel | AssertionFailed | OutOfRange | InvalidPointer

subsection \<open>The output schema\<close>

text \<open>
  The loop \<^verbatim>\<open>for (auto &col : right_tile_schema) col.position_list_idx += n\<close>, where
  \<open>n\<close> is the number of position lists of the left tile.
\<close>

fun shift_position_list_idx :: "nat \<Rightarrow> 'b ColumnInfo list \<Rightarrow> 'b ColumnInfo list" where
  "shift_position_list_idx n [] = []"
| "shift_position_list_idx n (col # cols) =
     col\<lparr>position_list_idx := position_list_idx col + n\<rparr> # shift_position_list_idx n cols"

text \<open>
  Modelled from the spec: \<^verbatim>\<open>BuildSchema\<close> belongs to the base join executor, which is
  outside the sources; the combined schema is the left columns followed by the right
  columns.
\<close>

definition BuildSchema :: "'b ColumnInfo list \<Rightarrow> 'b ColumnInfo list \<Rightarrow> 'b ColumnInfo list" where
  "BuildSchema left_schema right_schema = left_schema @ right_schema"

text \<open>Lines 80 to 91 of \<^verbatim>\<open>DExecute\<close>: the schema set on the output tile.\<close>

definition output_tile_schema :: "'b LogicalTile \<Rightarrow> 'b LogicalTile \<Rightarrow> 'b ColumnInfo list" where
  "output_tile_schema left_tile right_tile =
     (let left_tile_schema = GetSchema left_tile;
          right_tile_schema = GetSchema right_tile;
          right_tile_schema =
            shift_position_list_idx (length (GetPositionLists left_tile)) right_tile_schema
      in BuildSchema left_tile_schema right_tile_schema)"

subsection \<open>The merge scan\<close>

text \<open>The local variables of the \<^verbatim>\<open>while\<close> loop of \<^verbatim>\<open>DExecute\<close>.\<close>

record scan_state =
  left_start_row :: nat
  left_end_row :: nat
  right_start_row :: nat
  right_end_row :: nat
  position_lists :: "oid_t list list"

text \<open>
  \<^verbatim>\<open>left_start_row = left_end_row; left_end_row = Advance(left_tile, left_start_row, true)\<close>
  and its mirror image for the right side.
\<close>

definition advance_left ::
  "('b, 'v::linorder) MergeJoinExecutor \<Rightarrow> 'b LogicalTile \<Rightarrow> scan_state \<Rightarrow> scan_state" where
  "advance_left ex left_tile st =
     st\<lparr>left_start_row := left_end_row st,
        left_end_row := Advance ex left_tile (left_end_row st) True\<rparr>"

definition advance_right ::
  "('b, 'v::linorder) MergeJoinExecutor \<Rightarrow> 'b LogicalTile \<Rightarrow> scan_state \<Rightarrow> scan_state" where
  "advance_right ex right_tile st =
     st\<lparr>right_start_row := right_end_row st,
        right_end_row := Advance ex right_tile (right_end_row st) False\<rparr>"

text \<open>
  The \<^verbatim>\<open>for\<close> loop over the join clauses. The flag \<open>equal\<close> comes in as the loop finds
  it and leaves as the loop leaves it: the loop assigns it \<open>False\<close> before each
  \<^verbatim>\<open>break\<close> and nothing else.
\<close>

fun match_clauses ::
  "('b, 'v::linorder) JoinClause list \<Rightarrow> ('b, 'v) MergeJoinExecutor \<Rightarrow>
   'b LogicalTile \<Rightarrow> 'b LogicalTile \<Rightarrow> 'b ContainerTuple \<Rightarrow> 'b ContainerTuple \<Rightarrow>
   bool \<Rightarrow> scan_state \<Rightarrow> bool \<times> scan_state" where
  "match_clauses [] ex left_tile right_tile left_tuple right_tuple equal st = (equal, st)"
| "match_clauses (clause # rest) ex left_tile right_tile left_tuple right_tuple equal st =
     (let left_value = clause_left clause left_tuple right_tuple;
          right_value = clause_right clause left_tuple right_tuple;
          ret = Compare left_value right_value
      in if ret < 0 then (False, advance_left ex left_tile st)
         else if ret > 0 then (False, advance_right ex right_tile st)
         else match_clauses rest ex left_tile right_tile left_tuple right_tuple equal st)"

text \<open>
  One output row is written by two column loops: column \<open>c\<close> of the source lists, at
  \<open>row\<close>, is appended to list \<open>offset + c\<close> of the output. An index outside a vector
  is an error of the model (it is undefined behaviour in the source).
\<close>

fun push_back_columns ::
  "nat \<Rightarrow> oid_t list list \<Rightarrow> nat \<Rightarrow> nat list \<Rightarrow> oid_t list list \<Rightarrow> error + oid_t list list" where
  "push_back_columns offset src row [] plists = Inr plists"
| "push_back_columns offset src row (c # cs) plists =
     (if c < length src \<and> row < length (src ! c) \<and> offset + c < length plists
      then push_back_columns offset src row cs
             (plists[offset + c := plists ! (offset + c) @ [src ! c ! row]])
      else Inl OutOfRange)"

text \<open>The inner row loop, over the rows of the right group.\<close>

fun right_row_loop ::
  "oid_t list list \<Rightarrow> oid_t list list \<Rightarrow> nat \<Rightarrow> nat list \<Rightarrow> oid_t list list \<Rightarrow>
   error + oid_t list list" where
  "right_row_loop left_lists right_lists left_tile_row_itr [] plists = Inr plists"
| "right_row_loop left_lists right_lists left_tile_row_itr (right_tile_row_itr # rows) plists =
     (case push_back_columns 0 left_lists left_tile_row_itr [0..<length left_lists] plists of
        Inl e \<Rightarrow> Inl e
      | Inr plists1 \<Rightarrow>
          (case push_back_columns (length left_lists) right_lists right_tile_row_itr
                  [0..<length right_lists] plists1 of
             Inl e \<Rightarrow> Inl e
           | Inr plists2 \<Rightarrow> right_row_loop left_lists right_lists left_tile_row_itr rows plists2))"

text \<open>The outer row loop, over the rows of the left group.\<close>

fun left_row_loop ::
  "oid_t list list \<Rightarrow> oid_t list list \<Rightarrow> nat list \<Rightarrow> nat list \<Rightarrow> oid_t list list \<Rightarrow>
   error + oid_t list list" where
  "left_row_loop left_lists right_lists [] right_rows plists = Inr plists"
| "left_row_loop left_lists right_lists (left_tile_row_itr # rows) right_rows plists =
     (case right_row_loop left_lists right_lists left_tile_row_itr right_rows plists of
        Inl e \<Rightarrow> Inl e
      | Inr plists1 \<Rightarrow> left_row_loop left_lists right_lists rows right_rows plists1)"

text \<open>Lines 187 to 210: the cartesian product of the two current groups.\<close>

definition cartesian_product ::
  "'b LogicalTile \<Rightarrow> 'b LogicalTile \<Rightarrow> scan_state \<Rightarrow> error + oid_t list list" where
  "cartesian_product left_tile right_tile st =
     left_row_loop (GetPositionLists left_tile) (GetPositionLists right_tile)
       [left_start_row st..<left_end_row st] [right_start_row st..<right_end_row st]
       (position_lists st)"

text \<open>
  One iteration of the \<^verbatim>\<open>while\<close> loop. \<open>equal\<close> is declared \<open>False\<close>, goes through
  the clause loop, and \<^verbatim>\<open>if (!equal) continue;\<close> ends the iteration. What follows is
  the predicate test, which advances both groups when the predicate is false and then
  goes on (there is no \<^verbatim>\<open>continue\<close> in that branch), the cartesian product, and the
  advance of both groups.
\<close>

definition scan_body ::
  "('b, 'v::linorder) MergeJoinExecutor \<Rightarrow> 'b LogicalTile \<Rightarrow> 'b LogicalTile \<Rightarrow>
   scan_state \<Rightarrow> error + scan_state" where
  "scan_body ex left_tile right_tile st =
     (let left_tuple = (left_tile, left_start_row st);
          right_tuple = (right_tile, right_start_row st);
          equal = False;
          (equal, st1) =
            match_clauses (join_clause ex) ex left_tile right_tile left_tuple right_tuple equal st
      in if \<not> equal then Inr st1
         else
           (let st2 =
              (case predicate ex of
                 None \<Rightarrow> st1
               | Some p \<Rightarrow>
                   if \<not> p left_tuple right_tuple
                   then advance_right ex right_tile (advance_left ex left_tile st1)
                   else st1)
            in case cartesian_product left_tile right_tile st2 of
                 Inl e \<Rightarrow> Inl e
               | Inr plists \<Rightarrow>
                   Inr (advance_right ex right_tile
                         (advance_left ex left_tile (st2\<lparr>position_lists := plists\<rparr>)))))"

text \<open>
  The \<^verbatim>\<open>while\<close> loop, with fuel: the loop has no variant, so a run that needs more
  than \<open>fuel\<close> iterations ends in \<open>OutOfFuel\<close>.
\<close>

definition scan_condition :: "scan_state \<Rightarrow> bool" where
  "scan_condition st \<longleftrightarrow>
     left_end_row st > left_start_row st \<and> right_end_row st > right_start_row st"

fun scan ::
  "nat \<Rightarrow> ('b, 'v::linorder) MergeJoinExecutor \<Rightarrow> 'b LogicalTile \<Rightarrow> 'b LogicalTile \<Rightarrow>
   scan_state \<Rightarrow> error + scan_state" where
  "scan 0 ex left_tile right_tile st =
     (if scan_condition st then Inl OutOfFuel else Inr st)"
| "scan (Suc fuel) ex left_tile right_tile st =
     (if scan_condition st then
        (case scan_body ex left_tile right_tile st of
           Inl e \<Rightarrow> Inl e
         | Inr st' \<Rightarrow> scan fuel ex left_tile right_tile st')
      else Inr st)"

text \<open>Lines 114 to 132: the empty output lists and the first group of each side.\<close>

definition initial_scan_state ::
  "('b, 'v::linorder) MergeJoinExecutor \<Rightarrow> 'b LogicalTile \<Rightarrow> 'b LogicalTile \<Rightarrow> scan_state" where
  "initial_scan_state ex left_tile right_tile =
     (let left_tile_column_count = length (GetPositionLists left_tile);
          right_tile_column_count = length (GetPositionLists right_tile);
          output_tile_column_count = left_tile_column_count + right_tile_column_count;
          left_start_row = 0;
          right_start_row = 0
      in \<lparr>left_start_row = left_start_row,
          left_end_row = Advance ex left_tile left_start_row True,
          right_start_row = right_start_row,
          right_end_row = Advance ex right_tile right_start_row False,
          position_lists = replicate output_tile_column_count []\<rparr>)"

subsection \<open>DExecute\<close>

text \<open>
  A child's \<^verbatim>\<open>Execute()\<close> fails when the child has no tile left; otherwise
  \<^verbatim>\<open>GetOutput()\<close> hands over its next tile. The right child is asked first. The result
  is the returned status and the executor afterwards; \<open>fuel\<close> bounds each run of the
  \<^verbatim>\<open>while\<close> loop. In the retry branch the status of the inner call is dropped and
  \<^verbatim>\<open>true\<close> is returned.

  Modelled from the spec: \<^verbatim>\<open>SetPositionListsAndVisibility\<close> is outside the sources; it
  installs the lists and makes every row visible, so the tile's row count is the length
  of its first list.
\<close>

function DExecute ::
  "nat \<Rightarrow> ('b, 'v::linorder) MergeJoinExecutor \<Rightarrow> error + (bool \<times> ('b, 'v) MergeJoinExecutor)" where
  "DExecute fuel ex =
     (case children_1 ex of
        [] \<Rightarrow> Inr (False, ex)
      | right_tile # right_rest \<Rightarrow>
          (case children_0 ex of
             [] \<Rightarrow> Inr (False, ex\<lparr>children_1 := right_rest\<rparr>)
           | left_tile # left_rest \<Rightarrow>
               (let ex1 = ex\<lparr>children_0 := left_rest, children_1 := right_rest\<rparr>;
                    left_tile_column_count = length (GetPositionLists left_tile);
                    right_tile_column_count = length (GetPositionLists right_tile)
                in if \<not> left_tile_column_count > 0 \<or> \<not> right_tile_column_count > 0
                   then Inl AssertionFailed
                   else
                     (case scan fuel ex1 left_tile right_tile
                             (initial_scan_state ex1 left_tile right_tile) of
                        Inl e \<Rightarrow> Inl e
                      | Inr st \<Rightarrow>
                          (case position_lists st of
                             [] \<Rightarrow> Inl OutOfRange
                           | first_list # other_lists \<Rightarrow>
                               if length first_list > 0 then
                                 Inr (True,
                                   ex1\<lparr>executor_output :=
                                     Some \<lparr>GetSchema = output_tile_schema left_tile right_tile,
                                           GetPositionLists = position_lists st,
                                           GetTupleCount = length first_list\<rparr>\<rparr>)
                               else
                                 (case DExecute fuel ex1 of
                                    Inl e \<Rightarrow> Inl e
                                  | Inr (status, ex2) \<Rightarrow> Inr (True, ex2)))))))"
  by pat_completeness auto
termination
  by (relation "measure (\<lambda>(fuel, ex). length (children_1 ex))") auto

declare DExecute.simps [simp del]

section \<open>Test inputs: the scenarios of the specification\<close>

text \<open>
  Modelled from the spec: \<^verbatim>\<open>LogicalTile::GetValue\<close> and the tuple-value expression are
  outside the sources. A column of a logical tile resolves, through its position list,
  to a row of its base tile and, there, to its base column; a tuple-value expression
  reads one column of the first or of the second tuple of its context. Base tiles are
  lists of rows here.
\<close>

definition LogicalTile_GetValue :: "'v list list LogicalTile \<Rightarrow> nat \<Rightarrow> nat \<Rightarrow> 'v" where
  "LogicalTile_GetValue tile row column =
     (let info = GetSchema tile ! column
      in base_tile info ! (GetPositionLists tile ! position_list_idx info ! row)
           ! origin_column_id info)"

definition TupleValueExpression :: "nat \<Rightarrow> nat \<Rightarrow> ('v list list, 'v) AbstractExpression" where
  "TupleValueExpression tuple_idx column =
     (\<lambda>tuple1 tuple2.
        case (if tuple_idx = 0 then tuple1 else tuple2) of (tile, row) \<Rightarrow> LogicalTile_GetValue tile row column)"

text \<open>
  A tile over a base tile of (key, payload) rows: two columns, key and payload, both
  read through the one position list \<open>[0, 1, ...]\<close>.
\<close>

definition keyed_tile :: "(int \<times> int) list \<Rightarrow> int list list LogicalTile" where
  "keyed_tile rows =
     (let base = map (\<lambda>(k, p). [k, p]) rows
      in \<lparr>GetSchema =
            [\<lparr>position_list_idx = 0, base_tile = base, origin_column_id = 0\<rparr>,
             \<lparr>position_list_idx = 0, base_tile = base, origin_column_id = 1\<rparr>],
          GetPositionLists = [[0..<length rows]],
          GetTupleCount = length rows\<rparr>)"

text \<open>The single equality clause: left key column against right key column.\<close>

definition key_clause :: "(int list list, int) JoinClause" where
  "key_clause = \<lparr>clause_left = TupleValueExpression 0 0, clause_right = TupleValueExpression 1 0\<rparr>"

definition merge_join ::
  "(int list list, int) JoinClause list \<Rightarrow> (int list list, bool) AbstractExpression option \<Rightarrow>
   int list list LogicalTile list \<Rightarrow> int list list LogicalTile list \<Rightarrow>
   (int list list, int) MergeJoinExecutor" where
  "merge_join clauses pred left_tiles right_tiles =
     \<lparr>join_clause = clauses, predicate = pred, children_0 = left_tiles,
      children_1 = right_tiles, executor_output = None\<rparr>"

text \<open>Scenario A: left keys 1, 1, 2 and right keys 1, 2, 2, one clause, no predicate.\<close>

definition left_A :: "int list list LogicalTile" where
  "left_A = keyed_tile [(1, 10), (1, 20), (2, 30)]"

definition right_A :: "int list list LogicalTile" where
  "right_A = keyed_tile [(1, 40), (2, 50), (2, 60)]"

definition scenario_A :: "(int list list, int) MergeJoinExecutor" where
  "scenario_A = merge_join [key_clause] None [left_A] [right_A]"

text \<open>Scenario B: left keys 1, 2 and right keys 3, 4: no key in common.\<close>

definition left_B :: "int list list LogicalTile" where
  "left_B = keyed_tile [(1, 10), (2, 20)]"

definition right_B :: "int list list LogicalTile" where
  "right_B = keyed_tile [(3, 30), (4, 40)]"

definition scenario_B :: "(int list list, int) MergeJoinExecutor" where
  "scenario_B = merge_join [key_clause] None [left_B] [right_B]"

text \<open>
  Scenario C: scenario A with a predicate that is false exactly where the left key
  is 1, so on the anchor rows of the key-1 group only.
\<close>

definition left_key_is_not_1 :: "(int list list, bool) AbstractExpression" where
  "left_key_is_not_1 = (\<lambda>tuple1 tuple2. TupleValueExpression 0 0 tuple1 tuple2 \<noteq> (1::int))"

definition scenario_C :: "(int list list, int) MergeJoinExecutor" where
  "scenario_C = merge_join [key_clause] (Some left_key_is_not_1) [left_A] [right_A]"

text \<open>Scenario D: the tiles of scenario A and no join clause at all.\<close>

definition scenario_D :: "(int list list, int) MergeJoinExecutor" where
  "scenario_D = merge_join [] None [left_A] [right_A]"

section \<open>TupleTransformer: the value and datum bridge\<close>

text \<open>
  A \<^verbatim>\<open>Datum\<close> is a machine word, eight bytes wide here; a type id (\<^verbatim>\<open>Oid\<close>) is an
  unsigned 32-bit number. A Peloton \<^verbatim>\<open>Value\<close> is a tagged union: the value factory
  builds a value of a type from its payload and the value peeker reads the payload
  back, so the constructors below are \<^verbatim>\<open>ValueFactory::Get...Value\<close> and pattern
  matching is \<^verbatim>\<open>GetValueType\<close> followed by \<^verbatim>\<open>ValuePeeker::Peek...\<close>. A double is
  its 64 bits; \<open>Invalid\<close> is the default-constructed value; \<open>OtherValue\<close> stands for
  the value types that \<^verbatim>\<open>GetDatum\<close> does not list.
\<close>

type_synonym Datum = "64 word"

type_synonym Oid = "32 word"

datatype Value =
  SmallInt "16 word"
| Integer "32 word"
| BigInt "64 word"
| Double "64 word"
| Varchar "8 word list"
| Timestamp "64 word"
| Invalid
| OtherValue

text \<open>
  The memory that \<^verbatim>\<open>palloc\<close> manages, as far as the bridge uses it: a variable-length
  datum (\<^verbatim>\<open>struct varlena\<close>) is a 4-byte header followed by the data, and the header
  holds the size of both. The store maps the address of a varlena to its data bytes.
\<close>

type_synonym memory = "Datum \<Rightarrow> 8 word list option"

definition VARHDRSZ :: nat where
  "VARHDRSZ = 4"

definition VARSIZE :: "8 word list \<Rightarrow> nat" where
  "VARSIZE data = length data + VARHDRSZ"

text \<open>
  What the bridge uses and the sources do not define is taken as a parameter: the type
  ids \<^verbatim>\<open>POSTGRES_VALUE_TYPE_...\<close>, the datum conversion macros of PostgreSQL, its
  allocator (\<^verbatim>\<open>palloc\<close> gives the address of a fresh block), its tuple and slot
  constructors, and Peloton's null test on values.
\<close>

record ('h, 's) externals =
  POSTGRES_VALUE_TYPE_SMALLINT :: Oid
  POSTGRES_VALUE_TYPE_INTEGER :: Oid
  POSTGRES_VALUE_TYPE_BIGINT :: Oid
  POSTGRES_VALUE_TYPE_BPCHAR :: Oid
  POSTGRES_VALUE_TYPE_VARCHAR2 :: Oid
  POSTGRES_VALUE_TYPE_TEXT :: Oid
  POSTGRES_VALUE_TYPE_TIMESTAMPS :: Oid
  Int16GetDatum :: "16 word \<Rightarrow> Datum"
  DatumGetInt16 :: "Datum \<Rightarrow> 16 word"
  Int32GetDatum :: "32 word \<Rightarrow> Datum"
  DatumGetInt32 :: "Datum \<Rightarrow> 32 word"
  Int64GetDatum :: "64 word \<Rightarrow> Datum"
  DatumGetInt64 :: "Datum \<Rightarrow> 64 word"
  Float8GetDatum :: "64 word \<Rightarrow> Datum"
  palloc :: "memory \<Rightarrow> nat \<Rightarrow> Datum"
  Value_IsNull :: "Value \<Rightarrow> bool"
  heap_form_tuple :: "memory \<Rightarrow> Datum list \<Rightarrow> bool list \<Rightarrow> 'h"
  MakeSingleTupleTableSlot :: "'s"
  ExecStoreTuple :: "'h \<Rightarrow> 's \<Rightarrow> 's"

subsection \<open>TupleTransformer::GetValue\<close>

text \<open>
  The three string cases read the varlena that the datum points to:
  \<^verbatim>\<open>VARSIZE(ptr) - VARHDRSZ\<close> bytes from \<^verbatim>\<open>VARDATA(ptr)\<close>. A datum that is not the
  address of a varlena is an error of the model.
\<close>

definition GetStringValue :: "memory \<Rightarrow> Datum \<Rightarrow> error + Value" where
  "GetStringValue mem datum =
     (case mem datum of
        None \<Rightarrow> Inl InvalidPointer
      | Some data \<Rightarrow> (let len = VARSIZE data - VARHDRSZ in Inr (Varchar (take len data))))"

definition GetValue :: "('h, 's) externals \<Rightarrow> memory \<Rightarrow> Datum \<Rightarrow> Oid \<Rightarrow> error + Value" where
  "GetValue pg mem datum atttypid =
     (if atttypid = POSTGRES_VALUE_TYPE_SMALLINT pg then
        (let smallint = DatumGetInt16 pg datum in Inr (SmallInt smallint))
      else if atttypid = POSTGRES_VALUE_TYPE_INTEGER pg then
        (let integer = DatumGetInt32 pg datum in Inr (Integer integer))
      else if atttypid = POSTGRES_VALUE_TYPE_BIGINT pg then
        (let bigint = DatumGetInt64 pg datum in Inr (BigInt bigint))
      else if atttypid = POSTGRES_VALUE_TYPE_BPCHAR pg then GetStringValue mem datum
      else if atttypid = POSTGRES_VALUE_TYPE_VARCHAR2 pg then GetStringValue mem datum
      else if atttypid = POSTGRES_VALUE_TYPE_TEXT pg then GetStringValue mem datum
      else if atttypid = POSTGRES_VALUE_TYPE_TIMESTAMPS pg then
        (let timestamp = DatumGetInt64 pg datum in Inr (Timestamp timestamp))
      else Inr Invalid)"

subsection \<open>TupleTransformer::GetDatum\<close>

text \<open>
  The result is the datum and the memory afterwards: the \<^verbatim>\<open>VARCHAR\<close> case allocates a
  varlena of \<^verbatim>\<open>data_len + VARHDRSZ\<close> bytes and copies the data into it. The default
  case gives \<^verbatim>\<open>PointerGetDatum(nullptr)\<close>, the zero word.
\<close>

fun GetDatum :: "('h, 's) externals \<Rightarrow> memory \<Rightarrow> Value \<Rightarrow> Datum \<times> memory" where
  "GetDatum pg mem (SmallInt smallint) = (Int16GetDatum pg smallint, mem)"
| "GetDatum pg mem (Integer integer) = (Int32GetDatum pg integer, mem)"
| "GetDatum pg mem (BigInt bigint) = (Int64GetDatum pg bigint, mem)"
| "GetDatum pg mem (Double double_precision) = (Float8GetDatum pg double_precision, mem)"
| "GetDatum pg mem (Varchar data) =
     (let data_len = length data;
          va_len = data_len + VARHDRSZ;
          vaptr = palloc pg mem va_len
      in (vaptr, mem(vaptr \<mapsto> take data_len data)))"
| "GetDatum pg mem (Timestamp timestamp) = (Int64GetDatum pg timestamp, mem)"
| "GetDatum pg mem Invalid = (0, mem)"
| "GetDatum pg mem OtherValue = (0, mem)"

subsection \<open>TupleTransformer::GetPostgresTuple\<close>

text \<open>
  A Peloton tuple is the list of its column values; its column count is an unsigned
  32-bit number. A tuple descriptor holds the attribute count \<^verbatim>\<open>natts\<close> (a C
  \<^verbatim>\<open>int\<close>, kept as its 32 bits: the source compares it with unsigned numbers only,
  which converts it to unsigned) and the attributes.
\<close>

record Tuple =
  tuple_values :: "Value list"

definition GetColumnCount :: "Tuple \<Rightarrow> 32 word" where
  "GetColumnCount tuple = word_of_nat (length (tuple_values tuple))"

record pg_attribute =
  atttypid_of :: Oid
  attlen :: "16 word"
  attbyval :: bool

record TupleDesc =
  natts :: "32 word"
  attrs :: "pg_attribute list"

text \<open>
  The first attribute loop: each value becomes a datum (which may allocate) and a null
  flag.
\<close>

fun convert_attributes ::
  "('h, 's) externals \<Rightarrow> Tuple \<Rightarrow> nat list \<Rightarrow> memory \<Rightarrow> Datum list \<Rightarrow> bool list \<Rightarrow>
   error + (memory \<times> Datum list \<times> bool list)" where
  "convert_attributes pg tuple [] mem datums nulls = Inr (mem, datums, nulls)"
| "convert_attributes pg tuple (att_itr # rest) mem datums nulls =
     (if att_itr < length (tuple_values tuple) then
        (let val = tuple_values tuple ! att_itr;
             (datum, mem1) = GetDatum pg mem val
         in convert_attributes pg tuple rest mem1 (datums @ [datum])
              (nulls @ [if Value_IsNull pg val then True else False]))
      else Inl OutOfRange)"

text \<open>
  The clean-up loop: the datum of an attribute of negative length is a varlena made by
  \<^verbatim>\<open>GetDatum\<close> and is freed; the two assertions are checked on the way.
\<close>

fun free_varlenas ::
  "Tuple \<Rightarrow> TupleDesc \<Rightarrow> Datum list \<Rightarrow> nat list \<Rightarrow> memory \<Rightarrow> error + memory" where
  "free_varlenas tuple tuple_desc datums [] mem = Inr mem"
| "free_varlenas tuple tuple_desc datums (att_itr # rest) mem =
     (if att_itr < length (attrs tuple_desc) \<and> att_itr < length datums
         \<and> att_itr < length (tuple_values tuple) then
        (if sint (attlen (attrs tuple_desc ! att_itr)) < 0 then
           (if attbyval (attrs tuple_desc ! att_itr) = False
               \<and> (case tuple_values tuple ! att_itr of Varchar data \<Rightarrow> True | _ \<Rightarrow> False)
            then free_varlenas tuple tuple_desc datums rest (mem((datums ! att_itr) := None))
            else Inl AssertionFailed)
         else free_varlenas tuple tuple_desc datums rest mem)
      else Inl OutOfRange)"

text \<open>
  The result is the slot (\<open>None\<close> is the null pointer) and the memory afterwards. The
  count check comes before anything is allocated or built.
\<close>

definition GetPostgresTuple ::
  "('h, 's) externals \<Rightarrow> memory \<Rightarrow> Tuple \<Rightarrow> TupleDesc \<Rightarrow> error + ('s option \<times> memory)" where
  "GetPostgresTuple pg mem tuple tuple_desc =
     (let natts = natts tuple_desc
      in if GetColumnCount tuple \<noteq> natts then Inr (None, mem)
         else
           (case convert_attributes pg tuple [0..<unat natts] mem [] [] of
              Inl e \<Rightarrow> Inl e
            | Inr (mem1, datums, nulls) \<Rightarrow>
                (let heap_tuple = heap_form_tuple pg mem1 datums nulls;
                     slot = MakeSingleTupleTableSlot pg;
                     slot = ExecStoreTuple pg heap_tuple slot
                 in case free_varlenas tuple tuple_desc datums [0..<unat natts] mem1 of
                      Inl e \<Rightarrow> Inl e
                    | Inr mem2 \<Rightarrow> Inr (Some slot, mem2))))"

text \<open>
  The parameters as PostgreSQL defines them on a 64-bit build, for the examples: the
  type ids of \<^verbatim>\<open>int2\<close>, \<^verbatim>\<open>int4\<close>, \<^verbatim>\<open>int8\<close>, \<^verbatim>\<open>bpchar\<close>, \<^verbatim>\<open>varchar\<close>, \<^verbatim>\<open>text\<close> and
  \<^verbatim>\<open>timestamp\<close>; conversions that keep the low 2, 4 or 8 bytes (the masks
  \<^verbatim>\<open>0x0000ffff\<close> and \<^verbatim>\<open>0xffffffff\<close> are \<open>mask 16\<close> and \<open>mask 32\<close>); a heap tuple that is
  the datums with their null flags, and a slot that is the tuple it stores. The
  allocator of the examples hands out one fixed address.
\<close>

definition example_palloc :: "memory \<Rightarrow> nat \<Rightarrow> Datum" where
  "example_palloc mem n = 4096"

definition example_externals :: "(Datum list \<times> bool list, (Datum list \<times> bool list) option) externals" where
  "example_externals =
     \<lparr>POSTGRES_VALUE_TYPE_SMALLINT = 21,
      POSTGRES_VALUE_TYPE_INTEGER = 23,
      POSTGRES_VALUE_TYPE_BIGINT = 20,
      POSTGRES_VALUE_TYPE_BPCHAR = 1042,
      POSTGRES_VALUE_TYPE_VARCHAR2 = 1043,
      POSTGRES_VALUE_TYPE_TEXT = 25,
      POSTGRES_VALUE_TYPE_TIMESTAMPS = 1114,
      Int16GetDatum = (\<lambda>x. scast x AND mask 16),
      DatumGetInt16 = (\<lambda>d. ucast (d AND mask 16)),
      Int32GetDatum = (\<lambda>x. scast x AND mask 32),
      DatumGetInt32 = (\<lambda>d. ucast (d AND mask 32)),
      Int64GetDatum = (\<lambda>x. x),
      DatumGetInt64 = (\<lambda>d. d),
      Float8GetDatum = (\<lambda>x. x),
      palloc = example_palloc,
      Value_IsNull = (\<lambda>v. False),
      heap_form_tuple = (\<lambda>mem datums nulls. (datums, nulls)),
      MakeSingleTupleTableSlot = None,
      ExecStoreTuple = (\<lambda>heap_tuple slot. Some heap_tuple)\<rparr>"

section \<open>Position lists of one length\<close>


section \<open>Properties of Advance\<close>

lemma keyed_tile_simps:
  "GetTupleCount (keyed_tile rows) = length rows"
  "GetPositionLists (keyed_tile rows) = [[0..<length rows]]"
  by (simp_all add: keyed_tile_def Let_def)

lemma key_clause_left:
  "r < length rows \<Longrightarrow> clause_left key_clause (keyed_tile rows, r) t2 = fst (rows ! r)"
  by (simp add: key_clause_def TupleValueExpression_def LogicalTile_GetValue_def keyed_tile_def
        Let_def split: prod.splits)

lemma key_clause_right:
  "r < length rows \<Longrightarrow> clause_right key_clause t1 (keyed_tile rows, r) = fst (rows ! r)"
  by (simp add: key_clause_def TupleValueExpression_def LogicalTile_GetValue_def keyed_tile_def
        Let_def split: prod.splits)

lemma Advance_while_runs_to_the_end:
  "end_row \<le> GetTupleCount tile \<Longrightarrow>
   Advance_while clauses tile is_left this_row end_row = GetTupleCount tile"
proof (induction clauses tile is_left this_row end_row rule: Advance_while.induct)
  case (1 clauses tile is_left this_row end_row)
  show ?case
  proof (cases "end_row < GetTupleCount tile")
    case True
    with "1.IH" have "Advance_while clauses tile is_left (end_row + 1) (end_row + 1) = GetTupleCount tile"
      by simp
    with True show ?thesis
      by (subst Advance_while.simps) (simp add: Let_def)
  next
    case False
    with "1.prems" show ?thesis
      by (subst Advance_while.simps) simp
  qed
qed

lemma Advance_inside:
  "start_row < GetTupleCount tile \<Longrightarrow> Advance ex tile start_row is_left = GetTupleCount tile"
  by (simp add: Advance_def Let_def Advance_while_runs_to_the_end)

text \<open>
  C8. When \<open>start_row\<close> is at or beyond the tile's tuple count, \<open>Advance\<close> returns
  \<open>start_row\<close> unchanged, for every tile, every side and every set of join clauses:
  the empty group that signals exhaustion.
\<close>

theorem Advance_exhausted_returns_start_row:
  "GetTupleCount tile \<le> start_row \<Longrightarrow> Advance ex tile start_row is_left = start_row"
  by (simp add: Advance_def Let_def)

theorem Advance_exhausted_returns_start_row_witness:
  "GetTupleCount left_B \<le> 2 \<and> Advance scenario_B left_B 2 True = 2
   \<and> GetTupleCount right_A \<le> 7 \<and> Advance scenario_A right_A 7 False = 7"
  using Advance_exhausted_returns_start_row [of left_B 2 scenario_B True]
        Advance_exhausted_returns_start_row [of right_A 7 scenario_A False]
  by (simp add: left_B_def right_A_def keyed_tile_simps)

text \<open>
  C1. The claim is that \<open>Advance\<close> returns the end of the run of rows that compare
  equal to the anchor row, as the comment above the function says. The code does not:
  on the tile keyed 1, 2 of scenario B, from row 0 and on the left side, the keys of
  row 0 and row 1 differ under the one join clause, and \<open>Advance\<close> returns 2, the tuple
  count, not 1. (It returns the tuple count from every row inside the tile: lemma
  \<open>Advance_inside\<close>.)
\<close>

theorem Advance_runs_past_key_change:
  "Advance scenario_B left_B 0 True = 2
   \<and> Compare (clause_left key_clause (left_B, 0) (left_B, 0))
              (clause_left key_clause (left_B, 1) (left_B, 1)) \<noteq> 0"
  by (simp add: Advance_inside left_B_def keyed_tile_simps key_clause_left Compare_def)

section \<open>Properties of the merge scan\<close>

lemma match_clauses_flag:
  "fst (match_clauses cs ex L R lt rt equal st) \<Longrightarrow> equal"
  by (induction cs) (simp_all add: Let_def split: if_splits)

lemma match_clauses_all_equal:
  "\<forall>c \<in> set cs. Compare (clause_left c lt rt) (clause_right c lt rt) = 0 \<Longrightarrow>
   match_clauses cs ex L R lt rt equal st = (equal, st)"
  by (induction cs) (simp_all add: Let_def)

lemma scan_body_continue:
  "scan_body ex L R st =
     Inr (snd (match_clauses (join_clause ex) ex L R
                 (L, left_start_row st) (R, right_start_row st) False st))"
proof -
  obtain e st1 where m:
    "match_clauses (join_clause ex) ex L R (L, left_start_row st) (R, right_start_row st) False st
       = (e, st1)"
    by (cases "match_clauses (join_clause ex) ex L R
                 (L, left_start_row st) (R, right_start_row st) False st")
  with match_clauses_flag [of "join_clause ex" ex L R "(L, left_start_row st)"
         "(R, right_start_row st)" False st]
  have "\<not> e" by auto
  with m show ?thesis by (simp add: scan_body_def Let_def)
qed

lemma scan_stuck:
  "scan_condition st \<Longrightarrow> scan_body ex L R st = Inr st \<Longrightarrow> scan fuel ex L R st = Inl OutOfFuel"
  by (induction fuel) simp_all

lemma scan_matched_anchor_rows:
  assumes "scan_condition st"
    and "\<forall>c \<in> set (join_clause ex).
           Compare (clause_left c (L, left_start_row st) (R, right_start_row st))
                   (clause_right c (L, left_start_row st) (R, right_start_row st)) = 0"
  shows "scan fuel ex L R st = Inl OutOfFuel"
proof -
  have "scan_body ex L R st = Inr st"
    using assms(2) by (simp add: scan_body_continue match_clauses_all_equal)
  with assms(1) show ?thesis by (rule scan_stuck)
qed

lemma initial_scan_state_A:
  "initial_scan_state ex left_A right_A =
     \<lparr>left_start_row = 0, left_end_row = 3, right_start_row = 0, right_end_row = 3,
      position_lists = [[], []]\<rparr>"
  by (simp add: initial_scan_state_def Let_def Advance_inside left_A_def right_A_def
        keyed_tile_simps)

lemma anchors_A:
  "Compare (clause_left key_clause (left_A, 0) (right_A, 0))
           (clause_right key_clause (left_A, 0) (right_A, 0)) = 0"
  by (simp add: left_A_def right_A_def key_clause_left key_clause_right Compare_def)

lemma scan_A_never_returns:
  assumes "join_clause ex = [key_clause] \<or> join_clause ex = []"
  shows "scan fuel ex left_A right_A (initial_scan_state ex left_A right_A) = Inl OutOfFuel"
  unfolding initial_scan_state_A
  by (rule scan_matched_anchor_rows) (use assms anchors_A in \<open>auto simp: scan_condition_def\<close>)

lemma DExecute_first_pair_diverges:
  assumes "children_1 ex = R # rs" "children_0 ex = L # ls"
    and "GetPositionLists L \<noteq> []" "GetPositionLists R \<noteq> []"
    and "scan fuel (ex\<lparr>children_0 := ls, children_1 := rs\<rparr>) L R
           (initial_scan_state (ex\<lparr>children_0 := ls, children_1 := rs\<rparr>) L R) = Inl e"
  shows "DExecute fuel ex = Inl e"
  using assms by (subst DExecute.simps) (simp add: Let_def)

text \<open>
  C2. The claim is that one call of \<open>DExecute\<close> on scenario A (left keys 1, 1, 2,
  right keys 1, 2, 2, one equality clause, no predicate) produces a tile of four rows.
  The code does not return at all: the anchor rows compare equal under the clause, the
  flag \<open>equal\<close> is never set, so the iteration ends in \<^verbatim>\<open>continue\<close> with neither
  group advanced, and the loop repeats the same iteration. Whatever the fuel, the run
  is out of fuel.
\<close>

theorem DExecute_scenario_A_never_returns:
  "Compare (clause_left key_clause (left_A, 0) (right_A, 0))
           (clause_right key_clause (left_A, 0) (right_A, 0)) = 0
   \<and> (\<forall>fuel. DExecute fuel scenario_A = Inl OutOfFuel)"
proof (intro conjI allI)
  show "Compare (clause_left key_clause (left_A, 0) (right_A, 0))
           (clause_right key_clause (left_A, 0) (right_A, 0)) = 0"
    by (rule anchors_A)
next
  fix fuel
  show "DExecute fuel scenario_A = Inl OutOfFuel"
    by (rule DExecute_first_pair_diverges [where L = left_A and R = right_A and ls = "[]" and rs = "[]"])
       (simp_all add: scenario_A_def merge_join_def scan_A_never_returns,
        simp_all add: left_A_def right_A_def keyed_tile_simps)
qed

text \<open>
  C3. The claim is that, when the clauses compare equal on the anchor rows and the
  predicate is false there, both groups are advanced past the key, nothing is emitted
  for it, and later matched keys are still expanded. On scenario C the clause compares
  equal on the first anchor rows and the predicate is false on them, but the code never
  reaches the predicate: the iteration ends in \<^verbatim>\<open>continue\<close> as in C2, no group is
  advanced, and \<open>DExecute\<close> does not return, so the key-2 group is never expanded.
\<close>

theorem DExecute_scenario_C_never_returns:
  "Compare (clause_left key_clause (left_A, 0) (right_A, 0))
           (clause_right key_clause (left_A, 0) (right_A, 0)) = 0
   \<and> \<not> left_key_is_not_1 (left_A, 0) (right_A, 0)
   \<and> (\<forall>fuel. DExecute fuel scenario_C = Inl OutOfFuel)"
proof (intro conjI allI)
  show "Compare (clause_left key_clause (left_A, 0) (right_A, 0))
           (clause_right key_clause (left_A, 0) (right_A, 0)) = 0"
    by (rule anchors_A)
next
  show "\<not> left_key_is_not_1 (left_A, 0) (right_A, 0)"
    using key_clause_left [of 0 "[(1, 10), (1, 20), (2, 30)]" "(right_A, 0)"]
    by (simp add: left_key_is_not_1_def left_A_def key_clause_def)
next
  fix fuel
  show "DExecute fuel scenario_C = Inl OutOfFuel"
    by (rule DExecute_first_pair_diverges [where L = left_A and R = right_A and ls = "[]" and rs = "[]"])
       (simp_all add: scenario_C_def merge_join_def scan_A_never_returns,
        simp_all add: left_A_def right_A_def keyed_tile_simps)
qed

section \<open>The lengths of the output position lists\<close>







lemma advance_position_lists:
  "position_lists (advance_left ex L st) = position_lists st"
  "position_lists (advance_right ex R st) = position_lists st"
  by (simp_all add: advance_left_def advance_right_def)

lemma match_clauses_position_lists:
  "position_lists (snd (match_clauses cs ex L R lt rt equal st)) = position_lists st"
  by (induction cs) (simp_all add: Let_def advance_position_lists)





section \<open>Scenario B\<close>

lemma initial_scan_state_B:
  "initial_scan_state ex left_B right_B =
     \<lparr>left_start_row = 0, left_end_row = 2, right_start_row = 0, right_end_row = 2,
      position_lists = [[], []]\<rparr>"
  by (simp add: initial_scan_state_def Let_def Advance_inside left_B_def right_B_def
        keyed_tile_simps)

lemma scan_body_B:
  assumes "join_clause ex = [key_clause]"
  shows "scan_body ex left_B right_B
           \<lparr>left_start_row = 0, left_end_row = 2, right_start_row = 0, right_end_row = 2,
            position_lists = [[], []]\<rparr>
         = Inr \<lparr>left_start_row = 2, left_end_row = 2, right_start_row = 0, right_end_row = 2,
                position_lists = [[], []]\<rparr>"
  using assms
  by (simp add: scan_body_continue left_B_def right_B_def key_clause_left key_clause_right
        Compare_def Let_def advance_left_def Advance_def keyed_tile_simps)

lemma scan_B:
  assumes "join_clause ex = [key_clause]"
  shows "scan (Suc fuel) ex left_B right_B (initial_scan_state ex left_B right_B)
         = Inr \<lparr>left_start_row = 2, left_end_row = 2, right_start_row = 0, right_end_row = 2,
                position_lists = [[], []]\<rparr>"
  unfolding initial_scan_state_B
  by (cases fuel) (simp_all add: scan_body_B [OF assms] scan_condition_def)

lemma DExecute_exhausted:
  "children_1 ex = [] \<Longrightarrow> DExecute fuel ex = Inr (False, ex)"
  by (subst DExecute.simps) simp

lemma DExecute_retry:
  assumes "children_1 ex = R # rs" "children_0 ex = L # ls"
    and "GetPositionLists L \<noteq> []" "GetPositionLists R \<noteq> []"
    and "scan fuel (ex\<lparr>children_0 := ls, children_1 := rs\<rparr>) L R
           (initial_scan_state (ex\<lparr>children_0 := ls, children_1 := rs\<rparr>) L R) = Inr st"
    and "position_lists st = [] # other_lists"
    and "DExecute fuel (ex\<lparr>children_0 := ls, children_1 := rs\<rparr>) = Inr (status, ex2)"
  shows "DExecute fuel ex = Inr (True, ex2)"
  using assms by (subst DExecute.simps) (simp add: Let_def)

lemma DExecute_scenario_B:
  "DExecute (Suc fuel) (scenario_B\<lparr>executor_output := slot\<rparr>) =
     Inr (True, (merge_join [key_clause] None [] [])\<lparr>executor_output := slot\<rparr>)"
proof -
  let ?start = "scenario_B\<lparr>executor_output := slot\<rparr>"
  let ?fetched = "?start\<lparr>children_0 := [], children_1 := []\<rparr>"
  have ex1: "?fetched = (merge_join [key_clause] None [] [])\<lparr>executor_output := slot\<rparr>"
    by (simp add: scenario_B_def merge_join_def)
  have inner: "DExecute (Suc fuel) ?fetched = Inr (False, ?fetched)"
    by (rule DExecute_exhausted) simp
  have sc: "scan (Suc fuel) ?fetched left_B right_B (initial_scan_state ?fetched left_B right_B)
         = Inr \<lparr>left_start_row = 2, left_end_row = 2, right_start_row = 0, right_end_row = 2,
                position_lists = [[], []]\<rparr>"
    by (rule scan_B) (simp add: scenario_B_def merge_join_def)
  have ch: "children_1 ?start = [right_B]" "children_0 ?start = [left_B]"
    by (simp_all add: scenario_B_def merge_join_def)
  have cols: "GetPositionLists left_B \<noteq> []" "GetPositionLists right_B \<noteq> []"
    by (simp_all add: left_B_def right_B_def keyed_tile_simps)
  have "DExecute (Suc fuel) ?start = Inr (True, ?fetched)"
    by (rule DExecute_retry [OF ch cols sc _ inner]) simp
  then show ?thesis
    by (simp only: ex1)
qed

lemma empty_slot:
  "scenario_B\<lparr>executor_output := None\<rparr> = scenario_B"
  "(merge_join clauses pred ls rs)\<lparr>executor_output := None\<rparr> = merge_join clauses pred ls rs"
  by (simp_all add: scenario_B_def merge_join_def)

text \<open>
  C4. The claim is that, on inputs with no key in common, the operator emits no row
  and reports exhaustion. On scenario B (left keys 1, 2, right keys 3, 4, one tile
  each) the scan ends after one iteration with no row, the retry call finds the right
  child exhausted and returns \<^verbatim>\<open>false\<close>, and the outer call drops that status and
  returns \<^verbatim>\<open>true\<close> with no output tile set. Only the next call returns \<^verbatim>\<open>false\<close>.
\<close>

theorem DExecute_scenario_B_returns_true:
  "\<forall>fuel. DExecute (Suc fuel) scenario_B = Inr (True, merge_join [key_clause] None [] [])
          \<and> executor_output (merge_join [key_clause] None [] []) = None
          \<and> DExecute fuel (merge_join [key_clause] None [] [])
              = Inr (False, merge_join [key_clause] None [] [])"
proof (intro allI conjI)
  fix fuel
  show "DExecute (Suc fuel) scenario_B = Inr (True, merge_join [key_clause] None [] [])"
    using DExecute_scenario_B [of fuel None] by (simp only: empty_slot)
  show "executor_output (merge_join [key_clause] None [] []) = None"
    by (simp add: merge_join_def)
  show "DExecute fuel (merge_join [key_clause] None [] [])
          = Inr (False, merge_join [key_clause] None [] [])"
    by (rule DExecute_exhausted) (simp add: merge_join_def)
qed

section \<open>What the scan does and does not reach\<close>


text \<open>
  The scan never reaches the cartesian product, so it leaves the output lists as they
  are, and a call of \<open>DExecute\<close> that returns leaves the output slot as it was.
\<close>

lemma scan_position_lists:
  "scan fuel ex L R st = Inr st' \<Longrightarrow> position_lists st' = position_lists st"
proof (induction fuel arbitrary: st)
  case 0
  then show ?case by (auto split: if_splits)
next
  case (Suc fuel)
  show ?case
  proof (cases "scan_condition st")
    case False
    with Suc.prems show ?thesis by auto
  next
    case True
    let ?st1 = "snd (match_clauses (join_clause ex) ex L R
                 (L, left_start_row st) (R, right_start_row st) False st)"
    from True Suc.prems have "scan fuel ex L R ?st1 = Inr st'"
      by (simp add: scan_body_continue)
    from Suc.IH [OF this] show ?thesis
      by (simp add: match_clauses_position_lists)
  qed
qed

lemma DExecute_never_fills_output_slot:
  "DExecute fuel ex = Inr (status, ex') \<Longrightarrow> executor_output ex' = executor_output ex"
proof (induction fuel ex arbitrary: status ex' rule: DExecute.induct)
  case (1 fuel ex)
  show ?case
  proof (cases "children_1 ex")
    case Nil
    with "1.prems" show ?thesis by (subst (asm) DExecute.simps) auto
  next
    case (Cons R rs)
    note right = this
    show ?thesis
    proof (cases "children_0 ex")
      case Nil
      with right "1.prems" show ?thesis by (subst (asm) DExecute.simps) auto
    next
      case (Cons L ls)
      define ex1 where "ex1 = ex\<lparr>children_0 := ls, children_1 := rs\<rparr>"
      from "1.prems"(1) right Cons obtain st where
        cols: "0 < length (GetPositionLists L)" "0 < length (GetPositionLists R)"
        and sc: "scan fuel ex1 L R (initial_scan_state ex1 L R) = Inr st"
        by (subst (asm) DExecute.simps) (auto simp: Let_def ex1_def split: if_splits sum.splits)
      from scan_position_lists [OF sc]
      have "position_lists st =
              replicate (length (GetPositionLists L) + length (GetPositionLists R)) []"
        by (simp add: initial_scan_state_def Let_def)
      with cols obtain other_lists where pl: "position_lists st = [] # other_lists"
        by (cases "length (GetPositionLists L) + length (GetPositionLists R)") auto
      with "1.prems"(1) right Cons cols sc obtain status2 where
        inner: "DExecute fuel ex1 = Inr (status2, ex')"
        by (subst (asm) DExecute.simps) (auto simp: Let_def ex1_def split: sum.splits)
      from "1.IH" [OF right Cons refl refl refl _ sc [unfolded ex1_def] pl _
             inner [unfolded ex1_def]] cols
      show ?thesis by simp
    qed
  qed
qed

section \<open>The empty clause list\<close>

lemma scan_only_runs_out_of_fuel:
  "scan fuel ex L R st = Inl e \<Longrightarrow> e = OutOfFuel"
proof (induction fuel arbitrary: st)
  case 0
  then show ?case by (auto split: if_splits)
next
  case (Suc fuel)
  then show ?case by (auto simp: scan_body_continue split: if_splits)
qed

lemma scan_without_clauses:
  "join_clause ex = [] \<Longrightarrow> scan fuel ex L R st = Inr st' \<Longrightarrow> st' = st"
proof (induction fuel)
  case 0
  then show ?case by (auto split: if_splits)
next
  case (Suc fuel)
  then show ?case by (auto simp: scan_body_continue split: if_splits)
qed

lemma DExecute_fails_on_missing_columns_only:
  "DExecute fuel ex = Inl e \<Longrightarrow>
   \<forall>t \<in> set (children_0 ex) \<union> set (children_1 ex). GetPositionLists t \<noteq> [] \<Longrightarrow>
   e = OutOfFuel"
proof (induction fuel ex rule: DExecute.induct)
  case (1 fuel ex)
  show ?case
  proof (cases "children_1 ex")
    case Nil
    with "1.prems" show ?thesis by (subst (asm) DExecute.simps) auto
  next
    case (Cons R rs)
    note right = this
    show ?thesis
    proof (cases "children_0 ex")
      case Nil
      with right "1.prems" show ?thesis by (subst (asm) DExecute.simps) auto
    next
      case (Cons L ls)
      define ex1 where "ex1 = ex\<lparr>children_0 := ls, children_1 := rs\<rparr>"
      from "1.prems"(2) right Cons
      have cols: "0 < length (GetPositionLists L)" "0 < length (GetPositionLists R)"
        and rest: "\<forall>t \<in> set (children_0 (ex\<lparr>children_0 := ls, children_1 := rs\<rparr>))
                        \<union> set (children_1 (ex\<lparr>children_0 := ls, children_1 := rs\<rparr>)).
                    GetPositionLists t \<noteq> []"
        by auto
      show ?thesis
      proof (cases "scan fuel ex1 L R (initial_scan_state ex1 L R)")
        case (Inl e')
        with "1.prems"(1) right Cons cols have "e = e'"
          by (subst (asm) DExecute.simps) (auto simp: Let_def ex1_def)
        with scan_only_runs_out_of_fuel [OF Inl] show ?thesis by simp
      next
        case (Inr st)
        from scan_position_lists [OF Inr]
        have "position_lists st =
                replicate (length (GetPositionLists L) + length (GetPositionLists R)) []"
          by (simp add: initial_scan_state_def Let_def)
        with cols obtain other_lists where pl: "position_lists st = [] # other_lists"
          by (cases "length (GetPositionLists L) + length (GetPositionLists R)") auto
        with "1.prems"(1) right Cons cols Inr
        have inner: "DExecute fuel ex1 = Inl e"
          by (subst (asm) DExecute.simps) (auto simp: Let_def ex1_def split: sum.splits)
        from "1.IH" [OF right Cons refl refl refl _ Inr [unfolded ex1_def] pl _
               inner [unfolded ex1_def] rest] cols
        show ?thesis by simp
      qed
    qed
  qed
qed

lemma DExecute_outcomes:
  assumes "\<forall>t \<in> set (children_0 ex) \<union> set (children_1 ex). GetPositionLists t \<noteq> []"
  shows "DExecute fuel ex = Inl OutOfFuel
         \<or> (\<exists>status ex'. DExecute fuel ex = Inr (status, ex')
                \<and> executor_output ex' = executor_output ex)"
proof (cases "DExecute fuel ex")
  case (Inl e)
  with DExecute_fails_on_missing_columns_only [OF Inl assms] show ?thesis by simp
next
  case (Inr r)
  obtain status ex' where r: "r = (status, ex')" by (cases r)
  with Inr DExecute_never_fills_output_slot [of fuel ex status ex'] show ?thesis by simp
qed

text \<open>
  C5, as amended. With zero join clauses the operator raises no configuration error
  and attempts no cartesian product. \<open>DInit\<close> returns the status of the base
  initialisation and, when that is success, stores the empty clause list. On the
  executor so initialised, whose tiles all have position lists, \<open>DExecute\<close> raises
  no error: within any fuel it either is still running or returns, and when it returns
  the output slot is as it was. A scan with no clause that returns gives back the state
  it started from, output lists included: no row is appended.
\<close>

theorem zero_clauses_raise_no_error_and_give_no_product:
  assumes "GetJoinClauses node = []"
    and "AbstractJoinExecutor_Init ex0 = (status, ex1)"
    and "\<forall>t \<in> set (children_0 ex1) \<union> set (children_1 ex1). GetPositionLists t \<noteq> []"
  shows "DInit AbstractJoinExecutor_Init node ex0 =
           (status, if status then ex1\<lparr>join_clause := []\<rparr> else ex1)
       \<and> (DExecute fuel (ex1\<lparr>join_clause := []\<rparr>) = Inl OutOfFuel
          \<or> (\<exists>returned ex'. DExecute fuel (ex1\<lparr>join_clause := []\<rparr>) = Inr (returned, ex')
                \<and> executor_output ex' = executor_output ex1))
       \<and> (scan fuel (ex1\<lparr>join_clause := []\<rparr>) left_tile right_tile st = Inr st' \<longrightarrow> st' = st)"
proof (intro conjI impI)
  show "DInit AbstractJoinExecutor_Init node ex0 =
           (status, if status then ex1\<lparr>join_clause := []\<rparr> else ex1)"
    using assms(1,2) by (simp add: DInit_def)
next
  from assms(3)
  have "\<forall>t \<in> set (children_0 (ex1\<lparr>join_clause := []\<rparr>)) \<union> set (children_1 (ex1\<lparr>join_clause := []\<rparr>)).
          GetPositionLists t \<noteq> []"
    by simp
  from DExecute_outcomes [OF this, of fuel]
  show "DExecute fuel (ex1\<lparr>join_clause := []\<rparr>) = Inl OutOfFuel
          \<or> (\<exists>returned ex'. DExecute fuel (ex1\<lparr>join_clause := []\<rparr>) = Inr (returned, ex')
                \<and> executor_output ex' = executor_output ex1)"
    by simp
next
  assume "scan fuel (ex1\<lparr>join_clause := []\<rparr>) left_tile right_tile st = Inr st'"
  then show "st' = st"
    by (rule scan_without_clauses [rotated]) simp
qed

lemma DExecute_scenario_D:
  "DExecute fuel scenario_D = Inl OutOfFuel"
  by (rule DExecute_first_pair_diverges [where L = left_A and R = right_A and ls = "[]" and rs = "[]"])
     (simp_all add: scenario_D_def merge_join_def scan_A_never_returns,
      simp_all add: left_A_def right_A_def keyed_tile_simps)

lemma DInit_scenario_D:
  "DInit (\<lambda>ex. (True, ex)) \<lparr>GetJoinClauses = []\<rparr> scenario_A = (True, scenario_D)"
  by (simp add: DInit_def scenario_A_def scenario_D_def merge_join_def)

lemma scenario_D_from_A: "scenario_A\<lparr>join_clause := []\<rparr> = scenario_D"
  by (simp add: scenario_A_def scenario_D_def merge_join_def)

theorem zero_clauses_raise_no_error_and_give_no_product_witness:
  "GetJoinClauses \<lparr>GetJoinClauses = []\<rparr> = ([] :: (int list list, int) JoinClause list)
   \<and> GetPositionLists left_A \<noteq> [] \<and> GetPositionLists right_A \<noteq> []
   \<and> DInit (\<lambda>ex. (True, ex)) \<lparr>GetJoinClauses = []\<rparr> scenario_A = (True, scenario_D)
   \<and> DExecute 1 scenario_D = Inl OutOfFuel
   \<and> scan 1 scenario_D left_A right_A
        \<lparr>left_start_row = 3, left_end_row = 3, right_start_row = 1, right_end_row = 3,
         position_lists = [[0, 1], [0, 0]]\<rparr>
       = Inr \<lparr>left_start_row = 3, left_end_row = 3, right_start_row = 1, right_end_row = 3,
              position_lists = [[0, 1], [0, 0]]\<rparr>"
proof -
  let ?st = "\<lparr>left_start_row = 3, left_end_row = 3, right_start_row = 1, right_end_row = 3,
         position_lists = [[0, 1], [0, 0]]\<rparr>"
  have cols: "GetPositionLists left_A \<noteq> []" "GetPositionLists right_A \<noteq> []"
    by (simp_all add: left_A_def right_A_def keyed_tile_simps)
  then have tiles: "\<forall>t \<in> set (children_0 scenario_A) \<union> set (children_1 scenario_A).
                 GetPositionLists t \<noteq> []"
    by (simp add: scenario_A_def merge_join_def)
  have sc: "scan 1 scenario_D left_A right_A ?st = Inr ?st"
    by (simp add: scan_condition_def)
  from zero_clauses_raise_no_error_and_give_no_product
         [of "\<lparr>GetJoinClauses = []\<rparr>" "\<lambda>ex. (True, ex)" scenario_A True scenario_A 1
             left_A right_A ?st ?st, OF _ _ tiles]
       cols sc DExecute_scenario_D [of 1]
  show ?thesis by (simp add: scenario_D_from_A)
qed

text \<open>
  C5, as stated, fails: with zero join clauses \<open>DInit\<close> reports success, and
  \<open>DExecute\<close> on the tiles of scenario A reports no error either: whatever the fuel,
  the scan is still running.
\<close>

theorem zero_clauses_are_not_rejected:
  "DInit (\<lambda>ex. (True, ex)) \<lparr>GetJoinClauses = []\<rparr> scenario_A = (True, scenario_D)
   \<and> (\<forall>fuel. DExecute fuel scenario_D = Inl OutOfFuel)"
  by (simp add: DInit_scenario_D DExecute_scenario_D)

section \<open>The output position lists have one length\<close>





section \<open>Properties of the output schema\<close>

lemma shift_position_list_idx_map:
  "shift_position_list_idx n cols =
     map (\<lambda>col. col\<lparr>position_list_idx := position_list_idx col + n\<rparr>) cols"
  by (induction cols) simp_all

text \<open>
  C6. The output schema that \<open>DExecute\<close> builds from a left and a right tile is the
  left tile's columns followed by the right tile's columns, each right column with its
  position-list index increased by the number of position lists of the left tile; the
  base tile and the base column of every column are carried over unchanged, so nothing
  but column metadata is written.
\<close>

theorem output_tile_schema_left_then_shifted_right:
  "output_tile_schema left_tile right_tile =
     GetSchema left_tile @
     map (\<lambda>col. col\<lparr>position_list_idx :=
                      position_list_idx col + length (GetPositionLists left_tile)\<rparr>)
         (GetSchema right_tile)
   \<and> map base_tile (output_tile_schema left_tile right_tile) =
       map base_tile (GetSchema left_tile) @ map base_tile (GetSchema right_tile)
   \<and> map origin_column_id (output_tile_schema left_tile right_tile) =
       map origin_column_id (GetSchema left_tile) @ map origin_column_id (GetSchema right_tile)"
  by (simp add: output_tile_schema_def BuildSchema_def shift_position_list_idx_map Let_def comp_def)

section \<open>Properties of the tuple transformer\<close>

text \<open>
  C9. When the attribute count of the tuple descriptor differs from the column count
  of the Peloton tuple, \<open>GetPostgresTuple\<close> returns the null pointer; no datum is
  converted, no slot is made and the memory is as it was.
\<close>

theorem GetPostgresTuple_count_mismatch:
  "GetColumnCount tuple \<noteq> natts tuple_desc \<Longrightarrow>
   GetPostgresTuple pg mem tuple tuple_desc = Inr (None, mem)"
  by (simp add: GetPostgresTuple_def Let_def)

theorem GetPostgresTuple_count_mismatch_witness:
  "GetColumnCount \<lparr>tuple_values = [SmallInt 7, Integer 9]\<rparr> \<noteq> natts \<lparr>natts = 3, attrs = []\<rparr>
   \<and> GetPostgresTuple example_externals Map.empty \<lparr>tuple_values = [SmallInt 7, Integer 9]\<rparr>
         \<lparr>natts = 3, attrs = []\<rparr> = Inr (None, Map.empty)"
proof -
  have h: "GetColumnCount \<lparr>tuple_values = [SmallInt 7, Integer 9]\<rparr> \<noteq> natts \<lparr>natts = 3, attrs = []\<rparr>"
    by (simp add: GetColumnCount_def)
  from h GetPostgresTuple_count_mismatch [OF h, of example_externals Map.empty]
  show ?thesis by simp
qed

text \<open>
  C10. A value of type smallint, integer or bigint, converted to a datum by
  \<open>GetDatum\<close> and back by \<open>GetValue\<close> under the type id of its own type, comes back
  unchanged. The type ids and the conversion macros are parameters; what is asked of
  them is what the C compiler and PostgreSQL guarantee: the case labels of the switch
  are distinct, and \<^verbatim>\<open>DatumGetIntN\<close> undoes \<^verbatim>\<open>IntNGetDatum\<close>.
\<close>

theorem integer_values_round_trip:
  assumes "POSTGRES_VALUE_TYPE_INTEGER pg \<noteq> POSTGRES_VALUE_TYPE_SMALLINT pg"
    and "POSTGRES_VALUE_TYPE_BIGINT pg \<noteq> POSTGRES_VALUE_TYPE_SMALLINT pg"
    and "POSTGRES_VALUE_TYPE_BIGINT pg \<noteq> POSTGRES_VALUE_TYPE_INTEGER pg"
    and "\<And>x. DatumGetInt16 pg (Int16GetDatum pg x) = x"
    and "\<And>x. DatumGetInt32 pg (Int32GetDatum pg x) = x"
    and "\<And>x. DatumGetInt64 pg (Int64GetDatum pg x) = x"
  shows "(case GetDatum pg mem (SmallInt s) of (datum, mem') \<Rightarrow>
            GetValue pg mem' datum (POSTGRES_VALUE_TYPE_SMALLINT pg)) = Inr (SmallInt s)
       \<and> (case GetDatum pg mem (Integer i) of (datum, mem') \<Rightarrow>
            GetValue pg mem' datum (POSTGRES_VALUE_TYPE_INTEGER pg)) = Inr (Integer i)
       \<and> (case GetDatum pg mem (BigInt b) of (datum, mem') \<Rightarrow>
            GetValue pg mem' datum (POSTGRES_VALUE_TYPE_BIGINT pg)) = Inr (BigInt b)"
  using assms by (simp add: GetValue_def Let_def)

lemma example_int16_round_trip:
  "DatumGetInt16 example_externals (Int16GetDatum example_externals x) = x"
  by (simp add: example_externals_def) (rule bit_word_eqI, simp add: bit_simps)

lemma example_int32_round_trip:
  "DatumGetInt32 example_externals (Int32GetDatum example_externals x) = x"
  by (simp add: example_externals_def) (rule bit_word_eqI, simp add: bit_simps)

lemma example_int64_round_trip:
  "DatumGetInt64 example_externals (Int64GetDatum example_externals x) = x"
  by (simp add: example_externals_def)

lemma example_type_ids:
  "POSTGRES_VALUE_TYPE_SMALLINT example_externals = 21"
  "POSTGRES_VALUE_TYPE_INTEGER example_externals = 23"
  "POSTGRES_VALUE_TYPE_BIGINT example_externals = 20"
  by (simp_all add: example_externals_def)

theorem integer_values_round_trip_witness:
  "(case GetDatum example_externals Map.empty (SmallInt (- 5)) of (datum, mem') \<Rightarrow>
       GetValue example_externals mem' datum 21) = Inr (SmallInt (- 5))
   \<and> (case GetDatum example_externals Map.empty (Integer 70000) of (datum, mem') \<Rightarrow>
       GetValue example_externals mem' datum 23) = Inr (Integer 70000)
   \<and> (case GetDatum example_externals Map.empty (BigInt (- 1)) of (datum, mem') \<Rightarrow>
       GetValue example_externals mem' datum 20) = Inr (BigInt (- 1))"
  using integer_values_round_trip [of example_externals Map.empty "- 5" 70000 "- 1",
      OF _ _ _ example_int16_round_trip example_int32_round_trip example_int64_round_trip]
  by (simp add: example_type_ids)

end
